theory Spec2Isabelle
  imports Main "HOL-Library.Word" "HOL-Library.Sublist"
begin

section \<open>Go values used by the logger package\<close>

text \<open>
  An \<^verbatim>\<open>error\<close> of the program is either a plain error carrying its text, or the
  result of \<^verbatim>\<open>errors.Wrap\<close> (github.com/pkg/errors v0.8.1): a cause together with the
  message put in front of it. The stack trace that \<^verbatim>\<open>Wrap\<close> also records does not
  show in \<^verbatim>\<open>Error()\<close> and is left out. A Go \<^verbatim>\<open>error\<close> that may be nil is an
  \<open>error option\<close>.
\<close>

datatype error = ErrorString string | WithMessage error string

text \<open>The method \<^verbatim>\<open>Error()\<close> of an error: its text.\<close>

fun err_Error :: "error \<Rightarrow> string" where
  "err_Error (ErrorString s) = s"
| "err_Error (WithMessage cause msg) = msg @ '': '' @ err_Error cause"

fun Wrap :: "error option \<Rightarrow> string \<Rightarrow> error option" where
  "Wrap None message = None"
| "Wrap (Some err) message = Some (WithMessage err message)"

text \<open>
  A value of type \<^verbatim>\<open>interface{}\<close>, as far as the logger looks at it: a string, an
  error, nil, or any other operand, which is carried as its default (\<^verbatim>\<open>%v\<close>)
  rendering.
\<close>

datatype iface = IString string | IError error | INil | IOther string

fun iface_of_error :: "error option \<Rightarrow> iface" where
  "iface_of_error None = INil"
| "iface_of_error (Some e) = IError e"

fun is_string :: "iface \<Rightarrow> bool" where
  "is_string (IString s) = True"
| "is_string v = False"

fun render :: "iface \<Rightarrow> string" where
  "render (IString s) = s"
| "render (IError e) = err_Error e"
| "render INil = ''<nil>''"
| "render (IOther r) = r"

text \<open>
  \<^verbatim>\<open>fmt.Sprint\<close>: the operands in their default format, with a space between two
  operands when neither is a string.
\<close>

fun Sprint :: "iface list \<Rightarrow> string" where
  "Sprint [] = []"
| "Sprint [a] = render a"
| "Sprint (a # b # rest) =
     render a @ (if \<not> is_string a \<and> \<not> is_string b then '' '' else []) @ Sprint (b # rest)"

type_synonym byte = "8 word"

text \<open>The conversion \<^verbatim>\<open>string(b)\<close> of a byte slice: the same bytes, as a string.\<close>

definition string_of_bytes :: "byte list \<Rightarrow> string" where
  "string_of_bytes b = map (\<lambda>w. char_of (unat w)) b"

section \<open>Levels and the counter vector\<close>

datatype Level =
  DebugLevel | InfoLevel | WarnLevel | ErrorLevel | DPanicLevel | PanicLevel | FatalLevel

text \<open>The numeric value of a level (\<^verbatim>\<open>zapcore.Level\<close> is an \<^verbatim>\<open>int8\<close>).\<close>

fun level_int :: "Level \<Rightarrow> int" where
  "level_int DebugLevel = -1"
| "level_int InfoLevel = 0"
| "level_int WarnLevel = 1"
| "level_int ErrorLevel = 2"
| "level_int DPanicLevel = 3"
| "level_int PanicLevel = 4"
| "level_int FatalLevel = 5"

fun Level_String :: "Level \<Rightarrow> string" where
  "Level_String DebugLevel = ''debug''"
| "Level_String InfoLevel = ''info''"
| "Level_String WarnLevel = ''warn''"
| "Level_String ErrorLevel = ''error''"
| "Level_String DPanicLevel = ''dpanic''"
| "Level_String PanicLevel = ''panic''"
| "Level_String FatalLevel = ''fatal''"

text \<open>
  \<^verbatim>\<open>lineCounter\<close> is a counter vector with the one label \<^verbatim>\<open>level\<close>: a map from the
  label value to the count of its child. The metrics backend is a black box that adds one
  to a child on \<^verbatim>\<open>Inc\<close>; a count is an unbounded natural number here.
  \<^verbatim>\<open>WithLabelValues\<close> creates the child at zero when it does not exist yet, and a
  child is addressed by its label value.
\<close>

type_synonym CounterVec = "string \<rightharpoonup> nat"

definition NewCounterVec :: CounterVec where
  "NewCounterVec = Map.empty"

definition WithLabelValues :: "string \<Rightarrow> CounterVec \<Rightarrow> CounterVec" where
  "WithLabelValues lv m = (case m lv of None \<Rightarrow> m(lv \<mapsto> 0) | Some n \<Rightarrow> m)"

definition debugLineCounter :: string where
  "debugLineCounter = Level_String DebugLevel"

definition infoLineCounter :: string where
  "infoLineCounter = Level_String InfoLevel"

definition warnLineCounter :: string where
  "warnLineCounter = Level_String WarnLevel"

definition errorLineCounter :: string where
  "errorLineCounter = Level_String ErrorLevel"

definition dPanicLineCounter :: string where
  "dPanicLineCounter = Level_String DPanicLevel"

definition panicLineCounter :: string where
  "panicLineCounter = Level_String PanicLevel"

definition fatalLineCounter :: string where
  "fatalLineCounter = Level_String FatalLevel"

text \<open>
  The package's \<^verbatim>\<open>var\<close> block: the vector is made, then the seven children, in the
  order of the source.
\<close>

definition package_lineCounter :: CounterVec where
  "package_lineCounter =
     fold WithLabelValues
       [debugLineCounter, infoLineCounter, warnLineCounter, errorLineCounter,
        dPanicLineCounter, panicLineCounter, fatalLineCounter]
       NewCounterVec"

section \<open>The state of the process and the outcome of a call\<close>

record Entry =
  entry_level :: Level
  entry_message :: string
  entry_fields :: "iface list"

text \<open>
  The state a call can change: the counter vector, the records handed to the engine
  (\<open>emitted\<close>, every emission, in order), the records the engine wrote to its
  destination (\<open>written\<close>), and \<open>world\<close>, whatever else the caller's code keeps.
\<close>

record 'w pstate =
  lineCounter :: CounterVec
  emitted :: "Entry list"
  written :: "Entry list"
  world :: 'w

text \<open>A call returns, panics, or ends the process.\<close>

datatype 'a result = Returns 'a | Panics | Exits

text \<open>
  Statements in sequence: the rest runs only when the first statement returns; a panic
  or an exit ends the call where it happens.
\<close>

definition ret :: "'a \<Rightarrow> 's \<Rightarrow> 'a result \<times> 's" where
  "ret v s = (Returns v, s)"

definition and_then ::
  "('s \<Rightarrow> 'a result \<times> 's) \<Rightarrow> ('a \<Rightarrow> 's \<Rightarrow> 'b result \<times> 's) \<Rightarrow> 's \<Rightarrow> 'b result \<times> 's" where
  "and_then m k s =
     (case m s of (r, s1) \<Rightarrow>
        (case r of Returns v \<Rightarrow> k v s1 | Panics \<Rightarrow> (Panics, s1) | Exits \<Rightarrow> (Exits, s1)))"

definition seq ::
  "('s \<Rightarrow> unit result \<times> 's) \<Rightarrow> ('s \<Rightarrow> 'a result \<times> 's) \<Rightarrow> 's \<Rightarrow> 'a result \<times> 's" where
  "seq m k = and_then m (\<lambda>u. k)"

definition count :: "'w pstate \<Rightarrow> string \<Rightarrow> nat" where
  "count s c = (case lineCounter s c of None \<Rightarrow> 0 | Some n \<Rightarrow> n)"

definition Inc :: "string \<Rightarrow> 'w pstate \<Rightarrow> unit result \<times> 'w pstate" where
  "Inc c s = (Returns (), s\<lparr>lineCounter := (lineCounter s)(c \<mapsto> Suc (count s c))\<rparr>)"

section \<open>The engine: zap's sugared logger (go.uber.org/zap v1.16.0)\<close>

text \<open>
  The engine is outside the package; this is its documented behaviour, as far as the
  facade relies on it. A handle has an active level, the fields attached by \<^verbatim>\<open>With\<close>,
  a destination that takes a write or not (\<open>sink_ok\<close>: a failed write is swallowed),
  and the error its \<^verbatim>\<open>Sync\<close> returns. A record is written when its level is enabled
  and the destination takes it; the engine's sampling of repeated records is left out,
  and nothing below depends on \<open>written\<close> but \<open>Debug_below_level\<close>. The fields of
  a record are the fields of the handle followed by the \<^verbatim>\<open>keysAndValues\<close> exactly as
  the facade hands them over. The engine pairs them up afterwards; for an odd count it
  drops the last key and writes a DPanic record of its own, which is no record of the
  facade, touches no counter and is left out. After the write a
  Panic record panics and a Fatal record ends the process, whatever the active level
  is. The levels are the seven named levels of the engine.
\<close>

record SugaredLogger =
  active :: Level
  ctx :: "iface list"
  sink_ok :: bool
  sync_err :: "error option"

definition Enabled :: "Level \<Rightarrow> Level \<Rightarrow> bool" where
  "Enabled a lvl = (level_int a \<le> level_int lvl)"

fun terminal :: "Level \<Rightarrow> unit result" where
  "terminal PanicLevel = Panics"
| "terminal FatalLevel = Exits"
| "terminal lvl = Returns ()"

definition zap_log ::
  "SugaredLogger \<Rightarrow> Level \<Rightarrow> string \<Rightarrow> iface list \<Rightarrow> 'w pstate \<Rightarrow> unit result \<times> 'w pstate" where
  "zap_log z lvl msg context s =
     (let ent = \<lparr>entry_level = lvl, entry_message = msg, entry_fields = ctx z @ context\<rparr>;
          s1 = s\<lparr>emitted := emitted s @ [ent]\<rparr>;
          s2 = (if Enabled (active z) lvl \<and> sink_ok z
                then s1\<lparr>written := written s1 @ [ent]\<rparr> else s1)
      in (terminal lvl, s2))"

definition z_Debug :: "SugaredLogger \<Rightarrow> iface list \<Rightarrow> 'w pstate \<Rightarrow> unit result \<times> 'w pstate" where
  "z_Debug z args = zap_log z DebugLevel (Sprint args) []"

definition z_Info :: "SugaredLogger \<Rightarrow> iface list \<Rightarrow> 'w pstate \<Rightarrow> unit result \<times> 'w pstate" where
  "z_Info z args = zap_log z InfoLevel (Sprint args) []"

definition z_Warn :: "SugaredLogger \<Rightarrow> iface list \<Rightarrow> 'w pstate \<Rightarrow> unit result \<times> 'w pstate" where
  "z_Warn z args = zap_log z WarnLevel (Sprint args) []"

definition z_Error :: "SugaredLogger \<Rightarrow> iface list \<Rightarrow> 'w pstate \<Rightarrow> unit result \<times> 'w pstate" where
  "z_Error z args = zap_log z ErrorLevel (Sprint args) []"

definition z_Panic :: "SugaredLogger \<Rightarrow> iface list \<Rightarrow> 'w pstate \<Rightarrow> unit result \<times> 'w pstate" where
  "z_Panic z args = zap_log z PanicLevel (Sprint args) []"

definition z_Fatal :: "SugaredLogger \<Rightarrow> iface list \<Rightarrow> 'w pstate \<Rightarrow> unit result \<times> 'w pstate" where
  "z_Fatal z args = zap_log z FatalLevel (Sprint args) []"

definition z_Debugw ::
  "SugaredLogger \<Rightarrow> string \<Rightarrow> iface list \<Rightarrow> 'w pstate \<Rightarrow> unit result \<times> 'w pstate" where
  "z_Debugw z msg keysAndValues = zap_log z DebugLevel msg keysAndValues"

definition z_Infow ::
  "SugaredLogger \<Rightarrow> string \<Rightarrow> iface list \<Rightarrow> 'w pstate \<Rightarrow> unit result \<times> 'w pstate" where
  "z_Infow z msg keysAndValues = zap_log z InfoLevel msg keysAndValues"

definition z_Warnw ::
  "SugaredLogger \<Rightarrow> string \<Rightarrow> iface list \<Rightarrow> 'w pstate \<Rightarrow> unit result \<times> 'w pstate" where
  "z_Warnw z msg keysAndValues = zap_log z WarnLevel msg keysAndValues"

definition z_Errorw ::
  "SugaredLogger \<Rightarrow> string \<Rightarrow> iface list \<Rightarrow> 'w pstate \<Rightarrow> unit result \<times> 'w pstate" where
  "z_Errorw z msg keysAndValues = zap_log z ErrorLevel msg keysAndValues"

text \<open>\<^verbatim>\<open>With\<close> returns a new handle with the fields added; the handle it is called on
  stays as it is.\<close>

definition z_With :: "SugaredLogger \<Rightarrow> iface list \<Rightarrow> SugaredLogger" where
  "z_With z args = z\<lparr>ctx := ctx z @ args\<rparr>"

definition z_Sync :: "SugaredLogger \<Rightarrow> 'w pstate \<Rightarrow> error option result \<times> 'w pstate" where
  "z_Sync z s = (Returns (sync_err z), s)"

section \<open>The facade: logger.go\<close>

definition TraceId :: string where
  "TraceId = ''TraceID''"

record logger =
  l :: SugaredLogger

text \<open>
  What the package takes from outside logger.go: \<^verbatim>\<open>fmt.Sprintf\<close>; the function
  \<^verbatim>\<open>logFileURI\<close>, which another file of the package defines for each operating
  system; and whether \<^verbatim>\<open>Config.Build\<close> can open the destinations of a
  configuration (\<open>build_err\<close> gives the error when it cannot).
\<close>

record Config =
  Level :: Level
  Development :: bool
  Encoding :: string
  OutputPaths :: "string list"
  ErrorOutputPaths :: "string list"

record env =
  Sprintf :: "string \<Rightarrow> iface list \<Rightarrow> string"
  logFileURI :: "string \<Rightarrow> string"
  build_err :: "Config \<Rightarrow> error option"

text \<open>\<^verbatim>\<open>zap.NewProductionConfig()\<close> of zap v1.16.0, the fields the package touches.\<close>

definition NewProductionConfig :: Config where
  "NewProductionConfig =
     \<lparr>Level = InfoLevel, Development = False, Encoding = ''json'',
      OutputPaths = [''stderr''], ErrorOutputPaths = [''stderr'']\<rparr>"

text \<open>The \<^verbatim>\<open>*zap.Logger\<close> that \<^verbatim>\<open>Build\<close> returns keeps the configuration it was
  built from and the caller skip of its options.\<close>

record zap_Logger =
  zl_config :: Config
  zl_callerSkip :: nat

definition Build :: "env \<Rightarrow> Config \<Rightarrow> nat \<Rightarrow> error + zap_Logger" where
  "Build e config skip =
     (case build_err e config of
        Some err \<Rightarrow> Inl err
      | None \<Rightarrow> Inr \<lparr>zl_config = config, zl_callerSkip = skip\<rparr>)"

text \<open>\<^verbatim>\<open>log.Fatal\<close> of the standard library prints and ends the process.\<close>

definition log_Fatal :: "iface list \<Rightarrow> 'w pstate \<Rightarrow> 'a result \<times> 'w pstate" where
  "log_Fatal v s = (Exits, s)"

text \<open>
  A function value \<^verbatim>\<open>func() error\<close>: its body, which may change the whole state,
  return an error or nil, panic or exit; and the name that
  \<^verbatim>\<open>runtime.FuncForPC(reflect.ValueOf(f).Pointer()).Name()\<close> resolves for it.
\<close>

record 'w go_func =
  fn_name :: string
  fn_body :: "'w pstate \<Rightarrow> error option result \<times> 'w pstate"

text \<open>A \<^verbatim>\<open>trace.Span\<close>, with the text of
  \<^verbatim>\<open>span.SpanContext().TraceID().String()\<close>; a nil span is \<open>None\<close>.\<close>

record Span =
  TraceID_String :: string

text \<open>\<^verbatim>\<open>Write\<close> (logger.go, lines 101 to 104).\<close>

definition Write ::
  "logger \<Rightarrow> byte list \<Rightarrow> 'w pstate \<Rightarrow> (int \<times> error option) result \<times> 'w pstate" where
  "Write log b =
     seq (z_Info (l log) [IString (string_of_bytes b)])
         (ret (int (length b), None))"

text \<open>\<^verbatim>\<open>CreateProductionLogger\<close> (lines 108 to 127).\<close>

definition CreateProductionLogger ::
  "env \<Rightarrow> string \<Rightarrow> bool \<Rightarrow> Level \<Rightarrow> bool \<Rightarrow> 'w pstate \<Rightarrow> zap_Logger result \<times> 'w pstate" where
  "CreateProductionLogger e dir jsonConsole lvl toDisk =
     (let config0 = NewProductionConfig;
          config1 = (if \<not> jsonConsole
                     then config0\<lparr>OutputPaths := [''pretty://console'']\<rparr> else config0);
          config2 = (if toDisk
                     then (let destination = logFileURI e dir
                           in config1\<lparr>OutputPaths := OutputPaths config1 @ [destination],
                                      ErrorOutputPaths := ErrorOutputPaths config1 @ [destination]\<rparr>)
                     else config1);
          config = config2\<lparr>Level := lvl\<rparr>
      in (case Build e config 1 of
            Inl err \<Rightarrow> seq (Inc fatalLineCounter) (log_Fatal [IError err])
          | Inr zl \<Rightarrow> ret zl))"

text \<open>The emission methods (lines 130 to 205, 249 to 270).\<close>

definition Infow :: "logger \<Rightarrow> string \<Rightarrow> iface list \<Rightarrow> 'w pstate \<Rightarrow> unit result \<times> 'w pstate" where
  "Infow log msg keysAndValues =
     seq (z_Infow (l log) msg keysAndValues) (Inc infoLineCounter)"

text \<open>The package-level function \<^verbatim>\<open>Infow\<close> (lines 135 to 138) calls the method on
  the global logger, here the parameter \<open>global_l\<close>, and then the counter again.\<close>

definition package_Infow ::
  "logger \<Rightarrow> string \<Rightarrow> iface list \<Rightarrow> 'w pstate \<Rightarrow> unit result \<times> 'w pstate" where
  "package_Infow global_l msg keysAndValues =
     seq (Infow global_l msg keysAndValues) (Inc infoLineCounter)"

definition Debugw :: "logger \<Rightarrow> string \<Rightarrow> iface list \<Rightarrow> 'w pstate \<Rightarrow> unit result \<times> 'w pstate" where
  "Debugw log msg keysAndValues =
     seq (z_Debugw (l log) msg keysAndValues) (Inc debugLineCounter)"

definition Warnw :: "logger \<Rightarrow> string \<Rightarrow> iface list \<Rightarrow> 'w pstate \<Rightarrow> unit result \<times> 'w pstate" where
  "Warnw log msg keysAndValues =
     seq (z_Warnw (l log) msg keysAndValues) (Inc warnLineCounter)"

definition Errorw :: "logger \<Rightarrow> string \<Rightarrow> iface list \<Rightarrow> 'w pstate \<Rightarrow> unit result \<times> 'w pstate" where
  "Errorw log msg keysAndValues =
     seq (z_Errorw (l log) msg keysAndValues) (Inc errorLineCounter)"

definition Infof ::
  "env \<Rightarrow> logger \<Rightarrow> string \<Rightarrow> iface list \<Rightarrow> 'w pstate \<Rightarrow> unit result \<times> 'w pstate" where
  "Infof e log format vals =
     seq (z_Info (l log) [IString (Sprintf e format vals)]) (Inc infoLineCounter)"

definition Debugf ::
  "env \<Rightarrow> logger \<Rightarrow> string \<Rightarrow> iface list \<Rightarrow> 'w pstate \<Rightarrow> unit result \<times> 'w pstate" where
  "Debugf e log format vals =
     seq (z_Debug (l log) [IString (Sprintf e format vals)]) (Inc debugLineCounter)"

definition Warnf ::
  "env \<Rightarrow> logger \<Rightarrow> string \<Rightarrow> iface list \<Rightarrow> 'w pstate \<Rightarrow> unit result \<times> 'w pstate" where
  "Warnf e log format vals =
     seq (z_Warn (l log) [IString (Sprintf e format vals)]) (Inc warnLineCounter)"

definition Panicf ::
  "env \<Rightarrow> logger \<Rightarrow> string \<Rightarrow> iface list \<Rightarrow> 'w pstate \<Rightarrow> unit result \<times> 'w pstate" where
  "Panicf e log format vals =
     seq (z_Panic (l log) [IString (Sprintf e format vals)]) (Inc panicLineCounter)"

definition Info :: "logger \<Rightarrow> iface list \<Rightarrow> 'w pstate \<Rightarrow> unit result \<times> 'w pstate" where
  "Info log args = seq (z_Info (l log) args) (Inc infoLineCounter)"

definition Debug :: "logger \<Rightarrow> iface list \<Rightarrow> 'w pstate \<Rightarrow> unit result \<times> 'w pstate" where
  "Debug log args = seq (z_Debug (l log) args) (Inc debugLineCounter)"

definition Warn :: "logger \<Rightarrow> iface list \<Rightarrow> 'w pstate \<Rightarrow> unit result \<times> 'w pstate" where
  "Warn log args = seq (z_Warn (l log) args) (Inc warnLineCounter)"

definition Error :: "logger \<Rightarrow> iface list \<Rightarrow> 'w pstate \<Rightarrow> unit result \<times> 'w pstate" where
  "Error log args = seq (z_Error (l log) args) (Inc errorLineCounter)"

text \<open>\<^verbatim>\<open>WarnIf\<close>, \<^verbatim>\<open>ErrorIf\<close>, \<^verbatim>\<open>ErrorIfCalling\<close>, \<^verbatim>\<open>PanicIf\<close>
  (lines 208 to 246). \<^verbatim>\<open>optionalMsg[0]\<close> is read only under the length check.\<close>

definition WarnIf :: "logger \<Rightarrow> error option \<Rightarrow> 'w pstate \<Rightarrow> unit result \<times> 'w pstate" where
  "WarnIf log err =
     (if err \<noteq> None
      then seq (z_Warn (l log) [iface_of_error err]) (Inc warnLineCounter)
      else ret ())"

definition ErrorIf ::
  "logger \<Rightarrow> error option \<Rightarrow> string list \<Rightarrow> 'w pstate \<Rightarrow> unit result \<times> 'w pstate" where
  "ErrorIf log err optionalMsg =
     (if err \<noteq> None
      then seq (if length optionalMsg > 0
                then z_Error (l log) [iface_of_error (Wrap err (optionalMsg ! 0))]
                else z_Error (l log) [iface_of_error err])
               (Inc errorLineCounter)
      else ret ())"

definition ErrorIfCalling ::
  "logger \<Rightarrow> 'w go_func \<Rightarrow> string list \<Rightarrow> 'w pstate \<Rightarrow> unit result \<times> 'w pstate" where
  "ErrorIfCalling log f optionalMsg =
     and_then (fn_body f) (\<lambda>err.
       if err \<noteq> None
       then (let e = Wrap err (fn_name f)
             in seq (if length optionalMsg > 0
                     then z_Error (l log) [iface_of_error (Wrap e (optionalMsg ! 0))]
                     else z_Error (l log) [iface_of_error e])
                    (Inc errorLineCounter))
       else ret ())"

definition PanicIf :: "logger \<Rightarrow> error option \<Rightarrow> 'w pstate \<Rightarrow> unit result \<times> 'w pstate" where
  "PanicIf log err =
     (if err \<noteq> None then z_Panic (l log) [iface_of_error err] else ret ())"

definition Fatal :: "logger \<Rightarrow> iface list \<Rightarrow> 'w pstate \<Rightarrow> unit result \<times> 'w pstate" where
  "Fatal log args = seq (Inc fatalLineCounter) (z_Fatal (l log) args)"

definition Errorf ::
  "env \<Rightarrow> logger \<Rightarrow> string \<Rightarrow> iface list \<Rightarrow> 'w pstate \<Rightarrow> unit result \<times> 'w pstate" where
  "Errorf e log format vals =
     seq (z_Error (l log) [IString (Sprintf e format vals)]) (Inc errorLineCounter)"

definition Fatalf ::
  "env \<Rightarrow> logger \<Rightarrow> string \<Rightarrow> iface list \<Rightarrow> 'w pstate \<Rightarrow> unit result \<times> 'w pstate" where
  "Fatalf e log format vals =
     seq (z_Fatal (l log) [IString (Sprintf e format vals)]) (Inc fatalLineCounter)"

definition Panic :: "logger \<Rightarrow> iface list \<Rightarrow> 'w pstate \<Rightarrow> unit result \<times> 'w pstate" where
  "Panic log args = seq (z_Panic (l log) args) (Inc panicLineCounter)"

text \<open>\<^verbatim>\<open>WithSpan\<close> (lines 273 to 277): the handle that \<^verbatim>\<open>With\<close> returns is not
  kept, and the method returns nothing.\<close>

definition WithSpan :: "logger \<Rightarrow> Span option \<Rightarrow> 'w pstate \<Rightarrow> unit result \<times> 'w pstate" where
  "WithSpan log span =
     (case span of
        None \<Rightarrow> ret ()
      | Some sp \<Rightarrow>
          (let dropped = z_With (l log) [IString TraceId, IString (TraceID_String sp)]
           in ret ()))"

definition Sync :: "logger \<Rightarrow> 'w pstate \<Rightarrow> error option result \<times> 'w pstate" where
  "Sync log = z_Sync (l log)"

section \<open>The exported operations as one step function\<close>

datatype 'w call =
    Call_Write "byte list"
  | Call_CreateProductionLogger string bool Level bool
  | Call_Infow string "iface list"
  | Call_package_Infow string "iface list"
  | Call_Debugw string "iface list"
  | Call_Warnw string "iface list"
  | Call_Errorw string "iface list"
  | Call_Infof string "iface list"
  | Call_Debugf string "iface list"
  | Call_Warnf string "iface list"
  | Call_Panicf string "iface list"
  | Call_Info "iface list"
  | Call_Debug "iface list"
  | Call_Warn "iface list"
  | Call_Error "iface list"
  | Call_WarnIf "error option"
  | Call_ErrorIf "error option" "string list"
  | Call_ErrorIfCalling "'w go_func" "string list"
  | Call_PanicIf "error option"
  | Call_Fatal "iface list"
  | Call_Errorf string "iface list"
  | Call_Fatalf string "iface list"
  | Call_Panic "iface list"
  | Call_WithSpan "Span option"
  | Call_Sync

text \<open>The outcome of a call without the value it returns.\<close>

fun outcome :: "'a result \<times> 's \<Rightarrow> unit result \<times> 's" where
  "outcome (Returns v, s) = (Returns (), s)"
| "outcome (Panics, s) = (Panics, s)"
| "outcome (Exits, s) = (Exits, s)"

text \<open>
  One exported operation, run on the logger \<open>log\<close> (for the package-level
  \<^verbatim>\<open>Infow\<close>, the global logger).
\<close>

fun exec :: "env \<Rightarrow> logger \<Rightarrow> 'w call \<Rightarrow> 'w pstate \<Rightarrow> unit result \<times> 'w pstate" where
  "exec e log (Call_Write b) s = outcome (Write log b s)"
| "exec e log (Call_CreateProductionLogger dir jsonConsole lvl toDisk) s =
     outcome (CreateProductionLogger e dir jsonConsole lvl toDisk s)"
| "exec e log (Call_Infow msg kvs) s = Infow log msg kvs s"
| "exec e log (Call_package_Infow msg kvs) s = package_Infow log msg kvs s"
| "exec e log (Call_Debugw msg kvs) s = Debugw log msg kvs s"
| "exec e log (Call_Warnw msg kvs) s = Warnw log msg kvs s"
| "exec e log (Call_Errorw msg kvs) s = Errorw log msg kvs s"
| "exec e log (Call_Infof format vals) s = Infof e log format vals s"
| "exec e log (Call_Debugf format vals) s = Debugf e log format vals s"
| "exec e log (Call_Warnf format vals) s = Warnf e log format vals s"
| "exec e log (Call_Panicf format vals) s = Panicf e log format vals s"
| "exec e log (Call_Info args) s = Info log args s"
| "exec e log (Call_Debug args) s = Debug log args s"
| "exec e log (Call_Warn args) s = Warn log args s"
| "exec e log (Call_Error args) s = Error log args s"
| "exec e log (Call_WarnIf err) s = WarnIf log err s"
| "exec e log (Call_ErrorIf err optionalMsg) s = ErrorIf log err optionalMsg s"
| "exec e log (Call_ErrorIfCalling f optionalMsg) s = ErrorIfCalling log f optionalMsg s"
| "exec e log (Call_PanicIf err) s = PanicIf log err s"
| "exec e log (Call_Fatal args) s = Fatal log args s"
| "exec e log (Call_Errorf format vals) s = Errorf e log format vals s"
| "exec e log (Call_Fatalf format vals) s = Fatalf e log format vals s"
| "exec e log (Call_Panic args) s = Panic log args s"
| "exec e log (Call_WithSpan span) s = WithSpan log span s"
| "exec e log Call_Sync s = outcome (Sync log s)"

text \<open>
  The callback of \<^verbatim>\<open>ErrorIfCalling\<close> is the caller's code. \<open>callback_keeps P c s\<close>
  says that the callback of the call \<open>c\<close>, run in the state \<open>s\<close>, relates the
  state before it to the state after it by \<open>P\<close>; a call without a callback has
  nothing to keep.
\<close>

fun callback_keeps ::
  "('w pstate \<Rightarrow> 'w pstate \<Rightarrow> bool) \<Rightarrow> 'w call \<Rightarrow> 'w pstate \<Rightarrow> bool" where
  "callback_keeps P (Call_ErrorIfCalling f optionalMsg) s = P s (snd (fn_body f s))"
| "callback_keeps P c s = True"

section \<open>A small running instance\<close>

text \<open>
  A logger at level Info whose destination takes every write, the state right after the
  package's variables are initialised, an environment in which every configuration
  builds, and two callbacks: one that fails and one that succeeds, both counting their
  runs in \<open>world\<close>.
\<close>

definition example_handle :: SugaredLogger where
  "example_handle = \<lparr>active = InfoLevel, ctx = [], sink_ok = True, sync_err = None\<rparr>"

definition example_logger :: logger where
  "example_logger = \<lparr>l = example_handle\<rparr>"

definition example_state :: "nat pstate" where
  "example_state =
     \<lparr>lineCounter = package_lineCounter, emitted = [], written = [], world = 0\<rparr>"

definition example_env :: env where
  "example_env =
     \<lparr>Sprintf = (\<lambda>format vals. format),
      logFileURI = (\<lambda>dir. dir @ ''/log.jsonl''),
      build_err = (\<lambda>config. None)\<rparr>"

definition closeFile :: "nat go_func" where
  "closeFile =
     \<lparr>fn_name = ''main.closeFile'',
      fn_body = (\<lambda>s. (Returns (Some (ErrorString ''already closed'')),
                        s\<lparr>world := Suc (world s)\<rparr>))\<rparr>"

definition flushCache :: "nat go_func" where
  "flushCache =
     \<lparr>fn_name = ''main.flushCache'',
      fn_body = (\<lambda>s. (Returns None, s\<lparr>world := Suc (world s)\<rparr>))\<rparr>"

definition example_span :: Span where
  "example_span = \<lparr>TraceID_String = ''4bf92f3577b34da6a3ce929d0e0e4736''\<rparr>"

section \<open>Basic facts\<close>

lemmas engine_defs =
  zap_log_def z_Debug_def z_Info_def z_Warn_def z_Error_def z_Panic_def z_Fatal_def
  z_Debugw_def z_Infow_def z_Warnw_def z_Errorw_def z_Sync_def

lemmas monad_defs = ret_def and_then_def seq_def Inc_def

lemmas facade_defs =
  Write_def CreateProductionLogger_def Infow_def package_Infow_def Debugw_def Warnw_def
  Errorw_def Infof_def Debugf_def Warnf_def Panicf_def Info_def Debug_def Warn_def Error_def
  WarnIf_def ErrorIf_def ErrorIfCalling_def PanicIf_def Fatal_def Errorf_def Fatalf_def
  Panic_def WithSpan_def Sync_def Build_def log_Fatal_def

lemmas counter_defs =
  debugLineCounter_def infoLineCounter_def warnLineCounter_def errorLineCounter_def
  dPanicLineCounter_def panicLineCounter_def fatalLineCounter_def

lemmas example_defs =
  example_handle_def example_logger_def example_state_def example_env_def closeFile_def
  flushCache_def example_span_def

lemma package_lineCounter_eq:
  "package_lineCounter =
     [''debug'' \<mapsto> 0, ''info'' \<mapsto> 0, ''warn'' \<mapsto> 0, ''error'' \<mapsto> 0,
      ''dpanic'' \<mapsto> 0, ''panic'' \<mapsto> 0, ''fatal'' \<mapsto> 0]"
  by (simp add: package_lineCounter_def WithLabelValues_def NewCounterVec_def counter_defs)

text \<open>A byte slice and its string hold the same bytes.\<close>

lemma bytes_of_string_of_bytes: "map of_char (string_of_bytes b) = b"
proof -
  have "of_char (char_of (unat x)) = x" for x :: "8 word"
  proof -
    have lt: "unat x < 256" using unsigned_less[of x] by simp
    have "(of_char (char_of (unat x)) :: 8 word) = of_nat (of_char (char_of (unat x)))"
      by (simp only: of_nat_of_char)
    also have "\<dots> = of_nat (unat x mod 256)" by (simp only: of_char_of)
    also have "\<dots> = of_nat (unat x)" using lt by simp
    also have "\<dots> = x" by simp
    finally show ?thesis .
  qed
  then show ?thesis by (simp add: string_of_bytes_def comp_def)
qed

text \<open>
  The emission methods that count: the method's own counter goes up by one and the
  vector is otherwise as before, for every logger, argument and state.
\<close>

lemma counting_methods:
  "lineCounter (snd (Debug log args s)) =
     (lineCounter s)(debugLineCounter \<mapsto> Suc (count s debugLineCounter))
 \<and> lineCounter (snd (Debugw log msg kvs s)) =
     (lineCounter s)(debugLineCounter \<mapsto> Suc (count s debugLineCounter))
 \<and> lineCounter (snd (Debugf e log format vals s)) =
     (lineCounter s)(debugLineCounter \<mapsto> Suc (count s debugLineCounter))
 \<and> lineCounter (snd (Info log args s)) =
     (lineCounter s)(infoLineCounter \<mapsto> Suc (count s infoLineCounter))
 \<and> lineCounter (snd (Infow log msg kvs s)) =
     (lineCounter s)(infoLineCounter \<mapsto> Suc (count s infoLineCounter))
 \<and> lineCounter (snd (Infof e log format vals s)) =
     (lineCounter s)(infoLineCounter \<mapsto> Suc (count s infoLineCounter))
 \<and> lineCounter (snd (Warn log args s)) =
     (lineCounter s)(warnLineCounter \<mapsto> Suc (count s warnLineCounter))
 \<and> lineCounter (snd (Warnw log msg kvs s)) =
     (lineCounter s)(warnLineCounter \<mapsto> Suc (count s warnLineCounter))
 \<and> lineCounter (snd (Warnf e log format vals s)) =
     (lineCounter s)(warnLineCounter \<mapsto> Suc (count s warnLineCounter))
 \<and> lineCounter (snd (Error log args s)) =
     (lineCounter s)(errorLineCounter \<mapsto> Suc (count s errorLineCounter))
 \<and> lineCounter (snd (Errorw log msg kvs s)) =
     (lineCounter s)(errorLineCounter \<mapsto> Suc (count s errorLineCounter))
 \<and> lineCounter (snd (Errorf e log format vals s)) =
     (lineCounter s)(errorLineCounter \<mapsto> Suc (count s errorLineCounter))
 \<and> lineCounter (snd (Fatal log args s)) =
     (lineCounter s)(fatalLineCounter \<mapsto> Suc (count s fatalLineCounter))"
  by (simp add: facade_defs engine_defs monad_defs Let_def count_def)

text \<open>\<^verbatim>\<open>Fatal\<close> counts first and then ends the process.\<close>

lemma Fatal_counts_then_exits:
  "fst (Fatal log args s) = Exits
   \<and> count (snd (Fatal log args s)) fatalLineCounter = Suc (count s fatalLineCounter)"
  by (simp add: facade_defs engine_defs monad_defs Let_def count_def)

text \<open>
  A record below the active level is counted and not written: with the level at Info,
  \<^verbatim>\<open>Debug("x")\<close> writes nothing and the debug counter goes from 0 to 1.
\<close>

lemma Debug_below_level:
  "written (snd (Debug example_logger [IString ''x''] example_state)) = []
   \<and> count example_state debugLineCounter = 0
   \<and> count (snd (Debug example_logger [IString ''x''] example_state)) debugLineCounter = 1"
  by (simp add: facade_defs engine_defs monad_defs Let_def count_def Enabled_def
        example_defs package_lineCounter_eq counter_defs)

text \<open>
  The package-level \<^verbatim>\<open>Infow\<close> hands one record to the engine, with the
  \<^verbatim>\<open>keysAndValues\<close> as given, and adds two to the info counter: the method it calls
  counts, and then it counts again.
\<close>

lemma package_Infow_counts_twice:
  "count (snd (package_Infow log msg kvs s)) infoLineCounter = count s infoLineCounter + 2
   \<and> emitted (snd (package_Infow log msg kvs s)) =
       emitted s @ [\<lparr>entry_level = InfoLevel, entry_message = msg,
                      entry_fields = ctx (l log) @ kvs\<rparr>]"
  by (simp add: facade_defs engine_defs monad_defs Let_def count_def)

text \<open>What \<^verbatim>\<open>ErrorIfCalling\<close> adds to the state its callback leaves, counter by counter.\<close>

lemma ErrorIfCalling_after_callback:
  "count (snd (fn_body f s)) lbl \<le> count (snd (ErrorIfCalling log f optionalMsg s)) lbl"
  by (cases "fn_body f s")
     (auto simp add: facade_defs engine_defs monad_defs Let_def count_def
        split: result.splits)

section \<open>The claims\<close>

subsection \<open>C1: one count per emission method\<close>

text \<open>
  Claim C1 says that every emission method adds exactly one to the counter of its level,
  whatever the active level is and whether or not the write succeeds. For the Debug,
  Info, Warn and Error methods and for \<^verbatim>\<open>Fatal\<close> this is \<open>counting_methods\<close>.
  \<^verbatim>\<open>Panic\<close>, \<^verbatim>\<open>Panicf\<close> and \<^verbatim>\<open>Fatalf\<close> call the engine first and the counter
  after it; the engine's Panic panics and its Fatal ends the process, so the statement
  that counts is never reached: for every logger, argument and state the call panics
  (for \<^verbatim>\<open>Fatalf\<close>: exits) and leaves the whole counter vector as it was.
\<close>

theorem C1_Panic_Panicf_Fatalf_do_not_count:
  "fst (Panic log args s) = Panics
   \<and> lineCounter (snd (Panic log args s)) = lineCounter s
   \<and> fst (Panicf e log format vals s) = Panics
   \<and> lineCounter (snd (Panicf e log format vals s)) = lineCounter s
   \<and> fst (Fatalf e log format vals s) = Exits
   \<and> lineCounter (snd (Fatalf e log format vals s)) = lineCounter s"
  by (simp add: Panic_def Panicf_def Fatalf_def engine_defs monad_defs Let_def)

subsection \<open>C2: PanicIf\<close>

text \<open>
  Claim C2 says that \<^verbatim>\<open>PanicIf(nil)\<close> does nothing, and that \<^verbatim>\<open>PanicIf(err)\<close> with
  an error emits it at Panic level, adds one to the panic counter and panics. The code
  does the first, emits and panics, and has no statement that counts: the counter
  vector after \<^verbatim>\<open>PanicIf(err)\<close> is the one before it.
\<close>

theorem C2_PanicIf_does_not_count:
  "PanicIf log None s = (Returns (), s)
   \<and> fst (PanicIf log (Some err) s) = Panics
   \<and> emitted (snd (PanicIf log (Some err) s)) =
       emitted s @ [\<lparr>entry_level = PanicLevel, entry_message = err_Error err,
                      entry_fields = ctx (l log)\<rparr>]
   \<and> lineCounter (snd (PanicIf log (Some err) s)) = lineCounter s"
  by (simp add: PanicIf_def engine_defs monad_defs Let_def)

subsection \<open>C3: WithSpan\<close>

text \<open>
  Claim C3 says that \<^verbatim>\<open>WithSpan(span)\<close> with a span yields a logger whose later
  records carry the field TraceID, that the original logger is not changed, and that
  \<^verbatim>\<open>WithSpan(nil)\<close> does nothing. In the code \<^verbatim>\<open>WithSpan\<close> returns nothing and drops
  the handle \<^verbatim>\<open>With\<close> made: for every span, nil or not, the call returns with the
  state unchanged, and a record emitted afterwards on the same logger has the fields the
  logger had before and no others. On the example logger, which has no fields, the
  record of \<^verbatim>\<open>Info("x")\<close> after \<^verbatim>\<open>WithSpan(span)\<close> has no field at all, while the
  handle that was dropped would have carried the pair TraceID and the span's identifier.
\<close>

theorem C3_WithSpan_drops_the_trace_id:
  "WithSpan log span s = (Returns (), s)
   \<and> emitted (snd (Info log args (snd (WithSpan log (Some sp) s)))) =
       emitted s @ [\<lparr>entry_level = InfoLevel, entry_message = Sprint args,
                      entry_fields = ctx (l log)\<rparr>]
   \<and> entry_fields (last (emitted (snd (Info example_logger [IString ''x'']
        (snd (WithSpan example_logger (Some example_span) example_state)))))) = []
   \<and> ctx (z_With (l example_logger) [IString TraceId, IString (TraceID_String example_span)]) =
       [IString ''TraceID'', IString ''4bf92f3577b34da6a3ce929d0e0e4736'']"
  by (simp add: WithSpan_def Info_def z_With_def TraceId_def engine_defs monad_defs Let_def
        example_defs split: option.splits)

subsection \<open>C4: WarnIf and ErrorIf\<close>

text \<open>
  Claim C4: \<^verbatim>\<open>WarnIf(nil)\<close> and \<^verbatim>\<open>ErrorIf(nil)\<close> return with the state unchanged (no
  record, no count). With an error, \<^verbatim>\<open>WarnIf\<close> emits exactly one record, at Warn
  level with the error's text, and adds one to the warn counter and to no other;
  \<^verbatim>\<open>ErrorIf\<close> emits exactly one record, at Error level, and adds one to the error
  counter and to no other; the text of the record is the error's text, with
  \<^verbatim>\<open>optionalMsg[0]\<close> and a colon in front of it when an optional message is given.
\<close>

theorem C4_WarnIf_ErrorIf:
  "WarnIf log None s = (Returns (), s)
   \<and> ErrorIf log None optionalMsg s = (Returns (), s)
   \<and> fst (WarnIf log (Some err) s) = Returns ()
   \<and> emitted (snd (WarnIf log (Some err) s)) =
       emitted s @ [\<lparr>entry_level = WarnLevel, entry_message = err_Error err,
                      entry_fields = ctx (l log)\<rparr>]
   \<and> lineCounter (snd (WarnIf log (Some err) s)) =
       (lineCounter s)(warnLineCounter \<mapsto> Suc (count s warnLineCounter))
   \<and> fst (ErrorIf log (Some err) optionalMsg s) = Returns ()
   \<and> emitted (snd (ErrorIf log (Some err) optionalMsg s)) =
       emitted s @ [\<lparr>entry_level = ErrorLevel,
                      entry_message =
                        (if length optionalMsg > 0
                         then optionalMsg ! 0 @ '': '' @ err_Error err
                         else err_Error err),
                      entry_fields = ctx (l log)\<rparr>]
   \<and> lineCounter (snd (ErrorIf log (Some err) optionalMsg s)) =
       (lineCounter s)(errorLineCounter \<mapsto> Suc (count s errorLineCounter))"
  by (simp add: WarnIf_def ErrorIf_def engine_defs monad_defs Let_def count_def)

subsection \<open>C5: ErrorIfCalling\<close>

text \<open>
  Claim C5: let the callback \<open>f\<close>, run in the state \<open>s\<close>, return \<open>r\<close> and leave the
  state \<open>s1\<close>. When \<open>r\<close> is nil, \<^verbatim>\<open>ErrorIfCalling\<close> returns with exactly the state
  \<open>s1\<close>: it emits nothing and counts nothing. When \<open>r\<close> is an error, it returns after
  emitting exactly one record on top of \<open>s1\<close>, at Error level; the text of the record is
  the error's text with the name of \<open>f\<close> in front of it, and \<^verbatim>\<open>optionalMsg[0]\<close> in
  front of that when given, so the text contains the name of \<open>f\<close>; the error counter
  goes up by one and no other counter changes.
\<close>

theorem C5_ErrorIfCalling:
  assumes "fn_body f s = (Returns r, s1)"
  shows "(r = None \<longrightarrow> ErrorIfCalling log f optionalMsg s = (Returns (), s1))
   \<and> (\<forall>err. r = Some err \<longrightarrow>
        fst (ErrorIfCalling log f optionalMsg s) = Returns ()
      \<and> emitted (snd (ErrorIfCalling log f optionalMsg s)) =
          emitted s1 @ [\<lparr>entry_level = ErrorLevel,
              entry_message =
                (if length optionalMsg > 0 then optionalMsg ! 0 @ '': '' else [])
                @ (fn_name f @ '': '' @ err_Error err),
              entry_fields = ctx (l log)\<rparr>]
      \<and> sublist (fn_name f)
          (entry_message (last (emitted (snd (ErrorIfCalling log f optionalMsg s)))))
      \<and> lineCounter (snd (ErrorIfCalling log f optionalMsg s)) =
          (lineCounter s1)(errorLineCounter \<mapsto> Suc (count s1 errorLineCounter))
      \<and> world (snd (ErrorIfCalling log f optionalMsg s)) = world s1)"
proof (cases r)
  case None
  with assms show ?thesis
    by (simp add: ErrorIfCalling_def monad_defs)
next
  case (Some err)
  let ?s' = "snd (ErrorIfCalling log f optionalMsg s)"
  let ?m = "(if length optionalMsg > 0 then optionalMsg ! 0 @ '': '' else [])
            @ (fn_name f @ '': '' @ err_Error err)"
  have em: "emitted ?s' =
      emitted s1 @ [\<lparr>entry_level = ErrorLevel, entry_message = ?m,
                      entry_fields = ctx (l log)\<rparr>]"
    using assms Some by (simp add: ErrorIfCalling_def engine_defs monad_defs Let_def)
  have sub: "sublist (fn_name f) ?m"
    by (rule sublist_appendI)
  have rest: "fst (ErrorIfCalling log f optionalMsg s) = Returns ()
      \<and> lineCounter ?s' =
          (lineCounter s1)(errorLineCounter \<mapsto> Suc (count s1 errorLineCounter))
      \<and> world ?s' = world s1"
    using assms Some
    by (simp add: ErrorIfCalling_def engine_defs monad_defs Let_def count_def)
  from em sub rest Some show ?thesis by simp
qed

theorem C5_ErrorIfCalling_witness:
  "fn_body closeFile example_state =
     (Returns (Some (ErrorString ''already closed'')), example_state\<lparr>world := 1\<rparr>)
   \<and> emitted (snd (ErrorIfCalling example_logger closeFile [''cleanup''] example_state)) =
       [\<lparr>entry_level = ErrorLevel,
         entry_message = ''cleanup: main.closeFile: already closed'',
         entry_fields = []\<rparr>]
   \<and> sublist ''main.closeFile''
       (entry_message (last (emitted
          (snd (ErrorIfCalling example_logger closeFile [''cleanup''] example_state)))))
   \<and> lineCounter (snd (ErrorIfCalling example_logger closeFile [''cleanup''] example_state)) =
       package_lineCounter(''error'' \<mapsto> 1)
   \<and> fn_body flushCache example_state = (Returns None, example_state\<lparr>world := 1\<rparr>)
   \<and> ErrorIfCalling example_logger flushCache [''cleanup''] example_state =
       (Returns (), example_state\<lparr>world := 1\<rparr>)"
proof -
  let ?s' = "snd (ErrorIfCalling example_logger closeFile [''cleanup''] example_state)"
  have h1: "fn_body closeFile example_state =
     (Returns (Some (ErrorString ''already closed'')), example_state\<lparr>world := 1\<rparr>)"
    by (simp add: example_defs)
  have h2: "fn_body flushCache example_state = (Returns None, example_state\<lparr>world := 1\<rparr>)"
    by (simp add: example_defs)
  note t1 = C5_ErrorIfCalling [OF h1, of example_logger "[''cleanup'']"]
  note t2 = C5_ErrorIfCalling [OF h2, of example_logger "[''cleanup'']"]
  have n: "fn_name closeFile = ''main.closeFile''"
    by (simp add: closeFile_def)
  have em: "emitted ?s' =
       [\<lparr>entry_level = ErrorLevel,
         entry_message = ''cleanup: main.closeFile: already closed'',
         entry_fields = []\<rparr>]"
    using t1 by (simp add: example_defs)
  have "sublist (fn_name closeFile) (entry_message (last (emitted ?s')))"
    using t1 by blast
  then have sub: "sublist ''main.closeFile'' (entry_message (last (emitted ?s')))"
    by (simp only: n)
  have lc: "lineCounter ?s' = package_lineCounter(''error'' \<mapsto> 1)"
    using t1 by (simp add: count_def example_state_def package_lineCounter_eq counter_defs)
  have nil: "ErrorIfCalling example_logger flushCache [''cleanup''] example_state =
       (Returns (), example_state\<lparr>world := 1\<rparr>)"
    using t2 by simp
  from h1 h2 em sub lc nil show ?thesis by blast
qed

subsection \<open>C6: CreateProductionLogger\<close>

text \<open>
  Claim C6: \<^verbatim>\<open>CreateProductionLogger(dir, jsonConsole, lvl, toDisk)\<close> computes one
  configuration and hands it to \<^verbatim>\<open>Build\<close>. Whenever \<^verbatim>\<open>Build\<close> accepts that
  configuration, the call returns a logger and leaves the state as it was, and the
  configuration of the logger has: as output paths the console path, which is
  \<^verbatim>\<open>pretty://console\<close> exactly when \<open>jsonConsole\<close> is false (and \<^verbatim>\<open>stderr\<close>
  otherwise), followed by the destination \<^verbatim>\<open>logFileURI(dir)\<close> exactly when
  \<open>toDisk\<close> is true; as error-output paths \<^verbatim>\<open>stderr\<close>, followed by the same
  destination exactly when \<open>toDisk\<close> is true; and \<open>lvl\<close> as its level. When
  \<^verbatim>\<open>logFileURI(dir)\<close> is not itself the text \<^verbatim>\<open>pretty://console\<close>, that text is
  among the output paths exactly when \<open>jsonConsole\<close> is false. The hypothesis is
  about the environment alone: it names the configuration by its fields and says that
  \<^verbatim>\<open>Build\<close> has no error for it. What the call does when \<^verbatim>\<open>Build\<close> has an error
  is \<open>CreateProductionLogger_build_failure\<close> below.
\<close>

theorem C6_CreateProductionLogger_config:
  assumes "build_err e
     \<lparr>Level = lvl, Development = False, Encoding = ''json'',
      OutputPaths = (if jsonConsole then [''stderr''] else [''pretty://console''])
                    @ (if toDisk then [logFileURI e dir] else []),
      ErrorOutputPaths = [''stderr''] @ (if toDisk then [logFileURI e dir] else [])\<rparr> = None"
  shows "\<exists>zl. CreateProductionLogger e dir jsonConsole lvl toDisk s = (Returns zl, s)
       \<and> zl_callerSkip zl = 1
       \<and> OutputPaths (zl_config zl) =
           (if jsonConsole then [''stderr''] else [''pretty://console''])
           @ (if toDisk then [logFileURI e dir] else [])
       \<and> ErrorOutputPaths (zl_config zl) =
           [''stderr''] @ (if toDisk then [logFileURI e dir] else [])
       \<and> Level (zl_config zl) = lvl
       \<and> (hd (OutputPaths (zl_config zl)) = ''pretty://console'') = (\<not> jsonConsole)
       \<and> (OutputPaths (zl_config zl) =
            (if jsonConsole then [''stderr''] else [''pretty://console'']) @ [logFileURI e dir])
          = toDisk
       \<and> (ErrorOutputPaths (zl_config zl) = [''stderr'', logFileURI e dir]) = toDisk
       \<and> (logFileURI e dir \<noteq> ''pretty://console'' \<longrightarrow>
            (''pretty://console'' \<in> set (OutputPaths (zl_config zl))) = (\<not> jsonConsole))"
proof -
  let ?cfg = "\<lparr>Level = lvl, Development = False, Encoding = ''json'',
      OutputPaths = (if jsonConsole then [''stderr''] else [''pretty://console''])
                    @ (if toDisk then [logFileURI e dir] else []),
      ErrorOutputPaths = [''stderr''] @ (if toDisk then [logFileURI e dir] else [])\<rparr>"
  have b: "Build e ?cfg 1 = Inr \<lparr>zl_config = ?cfg, zl_callerSkip = 1\<rparr>"
    using assms by (simp add: Build_def)
  have c: "CreateProductionLogger e dir jsonConsole lvl toDisk s =
      (case Build e ?cfg 1 of
         Inl err \<Rightarrow> seq (Inc fatalLineCounter) (log_Fatal [IError err])
       | Inr zl \<Rightarrow> ret zl) s"
    by (simp add: CreateProductionLogger_def NewProductionConfig_def Let_def)
  have r: "CreateProductionLogger e dir jsonConsole lvl toDisk s =
      (Returns \<lparr>zl_config = ?cfg, zl_callerSkip = 1\<rparr>, s)"
    by (simp only: c b) (simp add: ret_def)
  show ?thesis
    by (rule exI [of _ "\<lparr>zl_config = ?cfg, zl_callerSkip = 1\<rparr>"]) (simp add: r)
qed

theorem C6_CreateProductionLogger_config_witness:
  "build_err example_env
     \<lparr>Level = DebugLevel, Development = False, Encoding = ''json'',
      OutputPaths = [''pretty://console'', ''/var/node/log.jsonl''],
      ErrorOutputPaths = [''stderr'', ''/var/node/log.jsonl'']\<rparr> = None
   \<and> (\<exists>zl. CreateProductionLogger example_env ''/var/node'' False DebugLevel True example_state
             = (Returns zl, example_state)
          \<and> OutputPaths (zl_config zl) = [''pretty://console'', ''/var/node/log.jsonl'']
          \<and> ErrorOutputPaths (zl_config zl) = [''stderr'', ''/var/node/log.jsonl'']
          \<and> Level (zl_config zl) = DebugLevel)
   \<and> (\<exists>zl. CreateProductionLogger example_env ''/var/node'' True ErrorLevel False example_state
             = (Returns zl, example_state)
          \<and> OutputPaths (zl_config zl) = [''stderr'']
          \<and> ErrorOutputPaths (zl_config zl) = [''stderr'']
          \<and> Level (zl_config zl) = ErrorLevel)"
proof -
  have u: "logFileURI example_env ''/var/node'' = ''/var/node/log.jsonl''"
    by (simp add: example_env_def)
  have h0: "build_err example_env
     \<lparr>Level = DebugLevel, Development = False, Encoding = ''json'',
      OutputPaths = [''pretty://console'', ''/var/node/log.jsonl''],
      ErrorOutputPaths = [''stderr'', ''/var/node/log.jsonl'']\<rparr> = None"
    by (simp add: example_env_def)
  have h1: "build_err example_env
     \<lparr>Level = DebugLevel, Development = False, Encoding = ''json'',
      OutputPaths = (if False then [''stderr''] else [''pretty://console''])
                    @ (if True then [logFileURI example_env ''/var/node''] else []),
      ErrorOutputPaths =
        [''stderr''] @ (if True then [logFileURI example_env ''/var/node''] else [])\<rparr> = None"
    by (simp add: example_env_def)
  have h2: "build_err example_env
     \<lparr>Level = ErrorLevel, Development = False, Encoding = ''json'',
      OutputPaths = (if True then [''stderr''] else [''pretty://console''])
                    @ (if False then [logFileURI example_env ''/var/node''] else []),
      ErrorOutputPaths =
        [''stderr''] @ (if False then [logFileURI example_env ''/var/node''] else [])\<rparr> = None"
    by (simp add: example_env_def)
  from C6_CreateProductionLogger_config [OF h1, of example_state]
  obtain zl1 where a1:
    "CreateProductionLogger example_env ''/var/node'' False DebugLevel True example_state
       = (Returns zl1, example_state)"
    "OutputPaths (zl_config zl1) = [''pretty://console'', ''/var/node/log.jsonl'']"
    "ErrorOutputPaths (zl_config zl1) = [''stderr'', ''/var/node/log.jsonl'']"
    "Level (zl_config zl1) = DebugLevel"
    by (auto simp add: u)
  from C6_CreateProductionLogger_config [OF h2, of example_state]
  obtain zl2 where a2:
    "CreateProductionLogger example_env ''/var/node'' True ErrorLevel False example_state
       = (Returns zl2, example_state)"
    "OutputPaths (zl_config zl2) = [''stderr'']"
    "ErrorOutputPaths (zl_config zl2) = [''stderr'']"
    "Level (zl_config zl2) = ErrorLevel"
    by auto
  from h0 a1 a2 show ?thesis by blast
qed

text \<open>
  When \<^verbatim>\<open>Build\<close> has an error for the configuration, no logger is returned: the fatal
  counter goes up by one and the process ends.
\<close>

lemma CreateProductionLogger_build_failure:
  assumes "build_err e
     \<lparr>Level = lvl, Development = False, Encoding = ''json'',
      OutputPaths = (if jsonConsole then [''stderr''] else [''pretty://console''])
                    @ (if toDisk then [logFileURI e dir] else []),
      ErrorOutputPaths = [''stderr''] @ (if toDisk then [logFileURI e dir] else [])\<rparr>
     = Some err"
  shows "fst (CreateProductionLogger e dir jsonConsole lvl toDisk s) = Exits
     \<and> lineCounter (snd (CreateProductionLogger e dir jsonConsole lvl toDisk s)) =
         (lineCounter s)(fatalLineCounter \<mapsto> Suc (count s fatalLineCounter))
     \<and> emitted (snd (CreateProductionLogger e dir jsonConsole lvl toDisk s)) = emitted s"
proof -
  let ?cfg = "\<lparr>Level = lvl, Development = False, Encoding = ''json'',
      OutputPaths = (if jsonConsole then [''stderr''] else [''pretty://console''])
                    @ (if toDisk then [logFileURI e dir] else []),
      ErrorOutputPaths = [''stderr''] @ (if toDisk then [logFileURI e dir] else [])\<rparr>"
  have b: "Build e ?cfg 1 = Inl err"
    using assms by (simp add: Build_def)
  have c: "CreateProductionLogger e dir jsonConsole lvl toDisk s =
      (case Build e ?cfg 1 of
         Inl err \<Rightarrow> seq (Inc fatalLineCounter) (log_Fatal [IError err])
       | Inr zl \<Rightarrow> ret zl) s"
    by (simp add: CreateProductionLogger_def NewProductionConfig_def Let_def)
  show ?thesis
    by (simp only: c b) (simp add: log_Fatal_def monad_defs count_def)
qed

subsection \<open>C7: no counter ever goes down\<close>

text \<open>
  Claim C7: under every exported operation every counter of the vector stays or grows.
  The callback handed to \<^verbatim>\<open>ErrorIfCalling\<close> is the caller's code and runs inside the
  operation; the hypothesis says that this code does not itself lower the counter, and
  holds trivially for every operation without a callback. By
  \<open>ErrorIfCalling_after_callback\<close> the operation adds nothing but growth to what the
  callback leaves.
\<close>

theorem C7_counters_never_decrease:
  assumes "callback_keeps (\<lambda>s s'. count s lbl \<le> count s' lbl) c s"
  shows "count s lbl \<le> count (snd (exec e log c s)) lbl"
  using assms
  by (cases c)
     (auto simp add: facade_defs engine_defs monad_defs Let_def count_def
        split: option.splits result.splits prod.splits)

theorem C7_counters_never_decrease_witness:
  "callback_keeps (\<lambda>s s'. count s errorLineCounter \<le> count s' errorLineCounter)
     (Call_ErrorIfCalling closeFile []) example_state
   \<and> count example_state errorLineCounter = 0
   \<and> count (snd (exec example_env example_logger (Call_ErrorIfCalling closeFile [])
        example_state)) errorLineCounter = 1
   \<and> count example_state errorLineCounter
       \<le> count (snd (exec example_env example_logger (Call_ErrorIfCalling closeFile [])
            example_state)) errorLineCounter
   \<and> callback_keeps (\<lambda>s s'. count s infoLineCounter \<le> count s' infoLineCounter)
       (Call_Info [IString ''started'']) example_state
   \<and> count example_state infoLineCounter
       \<le> count (snd (exec example_env example_logger (Call_Info [IString ''started''])
            example_state)) infoLineCounter"
proof -
  have h1: "callback_keeps (\<lambda>s s'. count s errorLineCounter \<le> count s' errorLineCounter)
     (Call_ErrorIfCalling closeFile []) example_state"
    by (simp add: count_def example_defs)
  have h2: "callback_keeps (\<lambda>s s'. count s infoLineCounter \<le> count s' infoLineCounter)
       (Call_Info [IString ''started'']) example_state"
    by simp
  have v0: "count example_state errorLineCounter = 0"
    by (simp add: count_def example_defs package_lineCounter_eq counter_defs)
  have v1: "count (snd (exec example_env example_logger (Call_ErrorIfCalling closeFile [])
        example_state)) errorLineCounter = 1"
    by (simp add: ErrorIfCalling_def engine_defs monad_defs Let_def count_def example_defs
          package_lineCounter_eq counter_defs)
  from C7_counters_never_decrease [OF h1, of example_env example_logger]
       C7_counters_never_decrease [OF h2, of example_env example_logger] h1 h2 v0 v1
  show ?thesis by blast
qed

subsection \<open>C8: Write\<close>

text \<open>
  Claim C8: for every byte slice \<open>b\<close>, \<^verbatim>\<open>Write(b)\<close> returns the pair of the length of
  \<open>b\<close> and a nil error. It emits exactly one record, at Info level, whose text is the
  string of the bytes of \<open>b\<close> (the same bytes, in the same number), and it leaves the
  counter vector as it was.
\<close>

theorem C8_Write:
  "fst (Write log b s) = Returns (int (length b), None)
   \<and> emitted (snd (Write log b s)) =
       emitted s @ [\<lparr>entry_level = InfoLevel, entry_message = string_of_bytes b,
                      entry_fields = ctx (l log)\<rparr>]
   \<and> map of_char (string_of_bytes b) = b
   \<and> length (string_of_bytes b) = length b
   \<and> lineCounter (snd (Write log b s)) = lineCounter s
   \<and> world (snd (Write log b s)) = world s"
  by (simp add: Write_def engine_defs monad_defs Let_def bytes_of_string_of_bytes)
     (simp add: string_of_bytes_def)

subsection \<open>C9: the callback runs once, first\<close>

text \<open>
  Claim C9: \<^verbatim>\<open>ErrorIfCalling\<close> runs its callback exactly once, before it looks at
  the error. The caller's state after the call is the one a single run of the callback
  from the starting state leaves; the records emitted up to the end of the callback are
  a prefix of the records emitted up to the end of the call; and when the callback
  returns nil the call returns with exactly the state the callback left, so the
  callback's effects are there although nothing is logged.
\<close>

theorem C9_ErrorIfCalling_runs_callback_once:
  "world (snd (ErrorIfCalling log f optionalMsg s)) = world (snd (fn_body f s))
   \<and> prefix (emitted (snd (fn_body f s)))
        (emitted (snd (ErrorIfCalling log f optionalMsg s)))
   \<and> (fst (fn_body f s) = Returns None \<longrightarrow>
        ErrorIfCalling log f optionalMsg s = (Returns (), snd (fn_body f s)))"
  by (cases "fn_body f s")
     (auto simp add: ErrorIfCalling_def engine_defs monad_defs Let_def split: result.splits)

theorem C9_ErrorIfCalling_runs_callback_once_witness:
  "world example_state = 0
   \<and> fst (fn_body flushCache example_state) = Returns None
   \<and> world (snd (ErrorIfCalling example_logger flushCache [] example_state)) = 1
   \<and> emitted (snd (ErrorIfCalling example_logger flushCache [] example_state)) = []
   \<and> lineCounter (snd (ErrorIfCalling example_logger flushCache [] example_state)) =
       package_lineCounter
   \<and> world (snd (ErrorIfCalling example_logger closeFile [] example_state)) = 1"
proof -
  have h: "fst (fn_body flushCache example_state) = Returns None"
    by (simp add: flushCache_def)
  have w: "world example_state = 0"
    by (simp add: example_state_def)
  have a: "snd (fn_body flushCache example_state) = example_state\<lparr>world := 1\<rparr>"
    by (simp add: flushCache_def w)
  have b: "world (snd (fn_body closeFile example_state)) = 1"
    by (simp add: closeFile_def w)
  note t1 = C9_ErrorIfCalling_runs_callback_once [of example_logger flushCache "[]" example_state]
  note t2 = C9_ErrorIfCalling_runs_callback_once [of example_logger closeFile "[]" example_state]
  from t1 h have "ErrorIfCalling example_logger flushCache [] example_state =
      (Returns (), snd (fn_body flushCache example_state))" by blast
  then have c: "ErrorIfCalling example_logger flushCache [] example_state =
      (Returns (), example_state\<lparr>world := 1\<rparr>)" by (simp only: a)
  from t2 b have d: "world (snd (ErrorIfCalling example_logger closeFile [] example_state)) = 1"
    by simp
  from h w c d show ?thesis by (simp add: example_state_def)
qed

subsection \<open>C10: the DPanic counter\<close>

text \<open>
  Claim C10: the package's variables create the DPanic child together with the six
  others, at zero, and no exported operation changes it: after every operation the
  DPanic entry of the vector is what it was before. As in C7 the hypothesis is about
  the caller's callback alone.
\<close>

theorem C10_dPanic_counter_untouched:
  assumes "callback_keeps
     (\<lambda>s s'. lineCounter s' dPanicLineCounter = lineCounter s dPanicLineCounter) c s"
  shows "package_lineCounter dPanicLineCounter = Some 0
     \<and> dom package_lineCounter =
         {debugLineCounter, infoLineCounter, warnLineCounter, errorLineCounter,
          dPanicLineCounter, panicLineCounter, fatalLineCounter}
     \<and> lineCounter (snd (exec e log c s)) dPanicLineCounter = lineCounter s dPanicLineCounter"
proof -
  have a: "package_lineCounter dPanicLineCounter = Some 0"
    by (simp add: package_lineCounter_eq counter_defs)
  have b: "dom package_lineCounter =
         {debugLineCounter, infoLineCounter, warnLineCounter, errorLineCounter,
          dPanicLineCounter, panicLineCounter, fatalLineCounter}"
    by (auto simp add: package_lineCounter_eq counter_defs)
  have c: "lineCounter (snd (exec e log c s)) dPanicLineCounter = lineCounter s dPanicLineCounter"
    using assms
    by (cases c)
       (auto simp add: facade_defs engine_defs monad_defs Let_def counter_defs
          split: option.splits result.splits prod.splits)
  from a b c show ?thesis by simp
qed

theorem C10_dPanic_counter_untouched_witness:
  "callback_keeps
     (\<lambda>s s'. lineCounter s' dPanicLineCounter = lineCounter s dPanicLineCounter)
     (Call_ErrorIfCalling closeFile [''cleanup'']) example_state
   \<and> lineCounter example_state dPanicLineCounter = Some 0
   \<and> lineCounter (snd (exec example_env example_logger
        (Call_ErrorIfCalling closeFile [''cleanup'']) example_state)) dPanicLineCounter = Some 0
   \<and> lineCounter (snd (exec example_env example_logger
        (Call_ErrorIfCalling closeFile [''cleanup'']) example_state)) errorLineCounter = Some 1"
proof -
  have h: "callback_keeps
     (\<lambda>s s'. lineCounter s' dPanicLineCounter = lineCounter s dPanicLineCounter)
     (Call_ErrorIfCalling closeFile [''cleanup'']) example_state"
    by (simp add: closeFile_def)
  note t = C10_dPanic_counter_untouched [OF h, of example_env example_logger]
  have z: "lineCounter example_state dPanicLineCounter = Some 0"
    using t by (simp add: example_state_def)
  have e: "lineCounter (snd (exec example_env example_logger
        (Call_ErrorIfCalling closeFile [''cleanup'']) example_state)) errorLineCounter = Some 1"
    by (simp add: ErrorIfCalling_def engine_defs monad_defs Let_def count_def example_defs
          package_lineCounter_eq counter_defs)
  from t z have "lineCounter (snd (exec example_env example_logger
        (Call_ErrorIfCalling closeFile [''cleanup'']) example_state)) dPanicLineCounter = Some 0"
    by simp
  with h z e show ?thesis by blast
qed

end
